theory Spec2Isabelle
  imports Main
begin

section \<open>Data model of pkg/mcp/extendable_server.go\<close>

text \<open>
  A Go \<open>error\<close> is modelled by its message. A Go slice that may be \<open>nil\<close> is an
  \<open>option\<close>: \<open>None\<close> is the nil slice, \<open>Some xs\<close> a non-nil slice with the elements
  \<open>xs\<close> (possibly none). A Go pointer to a value is an \<open>option\<close> as well.
\<close>

type_synonym error = string

text \<open>\<open>ptr.Deref(p, def)\<close>: the value behind the pointer, or \<open>def\<close> for a nil pointer.\<close>

definition ptr_Deref :: "'a option \<Rightarrow> 'a \<Rightarrow> 'a" where
  "ptr_Deref ptr def = (case ptr of None \<Rightarrow> def | Some v \<Rightarrow> v)"

text \<open>\<open>slices.Contains(s, v)\<close>; a nil slice contains nothing.\<close>

definition slices_Contains :: "'a list option \<Rightarrow> 'a \<Rightarrow> bool" where
  "slices_Contains s v = (case s of None \<Rightarrow> False | Some xs \<Rightarrow> v \<in> set xs)"

text \<open>
  The tool definition of the upstream \<open>api\<close> package, with the fields this code reads.
  The input schema and the handler are never inspected here; they are type parameters.
\<close>

record ToolAnnotations =
  ReadOnlyHint :: "bool option"
  DestructiveHint :: "bool option"

record 's api_Tool =
  Name :: string
  InputSchema :: 's
  Annotations :: ToolAnnotations

record ('s, 'h) ServerTool =
  Tool :: "'s api_Tool"
  Handler :: 'h

text \<open>The fields of \<open>config.StaticConfig\<close> read by the applicability filter.\<close>

record StaticConfig =
  ReadOnly :: bool
  DisableDestructive :: bool
  EnabledTools :: "string list option"
  DisabledTools :: "string list option"

subsection \<open>The applicability filter\<close>

definition isToolApplicable :: "StaticConfig \<Rightarrow> ('s, 'h) ServerTool \<Rightarrow> bool" where
  "isToolApplicable c tool =
     (if ReadOnly c \<and> \<not> ptr_Deref (ReadOnlyHint (Annotations (Tool tool))) False then False
      else if DisableDestructive c \<and> ptr_Deref (DestructiveHint (Annotations (Tool tool))) False
        then False
      else if EnabledTools c \<noteq> None \<and> \<not> slices_Contains (EnabledTools c) (Name (Tool tool))
        then False
      else if DisabledTools c \<noteq> None \<and> slices_Contains (DisabledTools c) (Name (Tool tool))
        then False
      else True)"

text \<open>
  Modelled from the spec: \<open>CompositeFilter\<close> belongs to this package but its file is not
  among the sources. The specification says that filters are composed by logical AND
  across all filter predicates: any predicate returning false excludes the tool.
\<close>

definition CompositeFilter :: "('t \<Rightarrow> bool) list \<Rightarrow> 't \<Rightarrow> bool" where
  "CompositeFilter filters tool = list_all (\<lambda>f. f tool) filters"

section \<open>The reconciler: reloadKubernetesClusterProvider\<close>

subsection \<open>Collaborators\<close>

text \<open>
  A provider built by \<open>internalk8s.NewProvider\<close>, seen through the methods the pass calls:
  the outcome of \<open>GetTargets\<close>, the target parameter name and the default target.
\<close>

record Provider =
  GetTargets :: "error + string list"
  GetTargetParameterName :: string
  GetDefaultTarget :: string

text \<open>The tool of the protocol SDK that \<open>AddTool\<close> installs (with its handler).\<close>

record 'x mcp_Tool =
  mcp_Name :: string
  mcp_Rest :: 'x

text \<open>
  What the pass consumes from outside this file. \<open>NewProvider\<close> and the toolsets'
  \<open>GetTools\<close> are upstream code. \<open>WithTargetParameter\<close>,
  \<open>ShouldIncludeTargetListTool\<close> and \<open>ServerToolToGoSdkTool\<close> belong to this package,
  but their files are not among the sources: they are parameters, and every theorem
  below holds for any choice of them. \<open>Toolsets_GetTools E p\<close> lists, for each toolset of
  \<open>s.configuration.Toolsets()\<close> in order, the result of \<open>toolset.GetTools(p)\<close>.
\<close>

record ('s, 'h, 'x) Collaborators =
  NewProvider :: "StaticConfig \<Rightarrow> error + Provider"
  Toolsets_GetTools :: "Provider \<Rightarrow> ('s, 'h) ServerTool list list"
  WithTargetParameter ::
    "string \<Rightarrow> string \<Rightarrow> string list \<Rightarrow> ('s, 'h) ServerTool \<Rightarrow> ('s, 'h) ServerTool"
  ShouldIncludeTargetListTool :: "string \<Rightarrow> string list \<Rightarrow> ('s, 'h) ServerTool \<Rightarrow> bool"
  ServerToolToGoSdkTool :: "('s, 'h) ServerTool \<Rightarrow> error + 'x mcp_Tool"

text \<open>The calls a pass issues against the provider and the protocol server, in order.\<close>

datatype 'x call =
  Call_Close Provider
  | Call_RemoveTools "string list"
  | Call_AddTool "'x mcp_Tool"
  | Call_WatchTargets Provider

subsection \<open>The server\<close>

text \<open>
  The struct \<open>Server\<close>. The field \<open>p\<close> is named \<open>cur_p\<close> here. \<open>server_tools\<close> is the
  tool table held by the protocol server \<open>s.server\<close>, and \<open>calls\<close> records every call
  made so far on the providers and on the protocol server. \<open>enabledTools\<close> is only ever
  ranged over and replaced, so its nil and its empty value are one list.
\<close>

record 'x Server =
  configuration :: StaticConfig
  enabledTools :: "string list"
  cur_p :: "Provider option"
  server_tools :: "string \<rightharpoonup> 'x mcp_Tool"
  calls :: "'x call list"

text \<open>
  The protocol server's \<open>RemoveTools\<close> drops the named tools (names it does not hold are
  ignored); its \<open>AddTool\<close> installs a tool, replacing one of the same name.
\<close>

definition mcp_RemoveTools :: "string list \<Rightarrow> 'x Server \<Rightarrow> 'x Server" where
  "mcp_RemoveTools names s =
     s\<lparr>server_tools := (\<lambda>n. if n \<in> set names then None else server_tools s n),
       calls := calls s @ [Call_RemoveTools names]\<rparr>"

definition mcp_AddTool :: "'x mcp_Tool \<Rightarrow> 'x Server \<Rightarrow> 'x Server" where
  "mcp_AddTool g s =
     s\<lparr>server_tools := (server_tools s)(mcp_Name g \<mapsto> g),
       calls := calls s @ [Call_AddTool g]\<rparr>"

subsection \<open>The phases of a pass\<close>

text \<open>
  Lines 188 to 200: the inner loop over the tools of one toolset and the outer loop over
  the toolsets, threading \<open>applicableTools\<close> and \<open>s.enabledTools\<close>.
\<close>

fun computeToolset ::
  "(('s, 'h) ServerTool \<Rightarrow> ('s, 'h) ServerTool) \<Rightarrow> (('s, 'h) ServerTool \<Rightarrow> bool) \<Rightarrow>
   ('s, 'h) ServerTool list \<Rightarrow> ('s, 'h) ServerTool list \<times> string list \<Rightarrow>
   ('s, 'h) ServerTool list \<times> string list" where
  "computeToolset mutator flt [] acc = acc"
| "computeToolset mutator flt (tool # rest) (applicableTools, enabled) =
     (let tool' = mutator tool in
      if \<not> flt tool' then computeToolset mutator flt rest (applicableTools, enabled)
      else computeToolset mutator flt rest
             (applicableTools @ [tool'], enabled @ [Name (Tool tool')]))"

fun computeToolsets ::
  "(('s, 'h) ServerTool \<Rightarrow> ('s, 'h) ServerTool) \<Rightarrow> (('s, 'h) ServerTool \<Rightarrow> bool) \<Rightarrow>
   ('s, 'h) ServerTool list list \<Rightarrow> ('s, 'h) ServerTool list \<times> string list \<Rightarrow>
   ('s, 'h) ServerTool list \<times> string list" where
  "computeToolsets mutator flt [] acc = acc"
| "computeToolsets mutator flt (toolset # rest) acc =
     computeToolsets mutator flt rest (computeToolset mutator flt toolset acc)"

text \<open>Lines 173 to 200: filter, mutator and the two lists they produce.\<close>

definition buildApplicableTools ::
  "('s, 'h, 'x) Collaborators \<Rightarrow> StaticConfig \<Rightarrow> Provider \<Rightarrow> string list \<Rightarrow>
   ('s, 'h) ServerTool list \<times> string list" where
  "buildApplicableTools E c p targets =
     (let flt = CompositeFilter
                  [isToolApplicable c,
                   ShouldIncludeTargetListTool E (GetTargetParameterName p) targets];
          mutator = WithTargetParameter E (GetDefaultTarget p) (GetTargetParameterName p) targets
      in computeToolsets mutator flt (Toolsets_GetTools E p) ([], []))"

text \<open>Lines 203 to 208: the previously enabled names that are not enabled any more.\<close>

fun toolsToRemove :: "string list \<Rightarrow> string list \<Rightarrow> string list \<Rightarrow> string list" where
  "toolsToRemove [] enabled acc = acc"
| "toolsToRemove (oldTool # rest) enabled acc =
     (if oldTool \<notin> set enabled then toolsToRemove rest enabled (acc @ [oldTool])
      else toolsToRemove rest enabled acc)"

text \<open>Lines 211 to 217: convert and install each applicable tool; stop at the first failure.\<close>

fun addTools ::
  "(('s, 'h) ServerTool \<Rightarrow> error + 'x mcp_Tool) \<Rightarrow> ('s, 'h) ServerTool list \<Rightarrow>
   'x Server \<Rightarrow> error option \<times> 'x Server" where
  "addTools conv [] s = (None, s)"
| "addTools conv (tool # rest) s =
     (case conv tool of
        Inl err \<Rightarrow> (Some (''failed to convert tool '' @ Name (Tool tool) @ '': '' @ err), s)
      | Inr g \<Rightarrow> addTools conv rest (mcp_AddTool g s))"

text \<open>
  The whole pass. It returns the error (\<open>None\<close> for \<open>nil\<close>) and the server as the pass
  leaves it; the server is mutated in place, so an error does not undo what was done.
\<close>

definition reloadKubernetesClusterProvider ::
  "('s, 'h, 'x) Collaborators \<Rightarrow> 'x Server \<Rightarrow> error option \<times> 'x Server" where
  "reloadKubernetesClusterProvider E s =
     (case NewProvider E (configuration s) of
        Inl err \<Rightarrow> (Some err, s)
      | Inr p \<Rightarrow>
          (let s1 = (case cur_p s of
                       None \<Rightarrow> s
                     | Some old \<Rightarrow> s\<lparr>calls := calls s @ [Call_Close old]\<rparr>);
               s2 = s1\<lparr>cur_p := Some p\<rparr>
           in case GetTargets p of
                Inl err \<Rightarrow> (Some err, s2)
              | Inr targets \<Rightarrow>
                  (let previousTools = enabledTools s2;
                       (applicableTools, enabled) =
                          buildApplicableTools E (configuration s2) p targets;
                       s3 = s2\<lparr>enabledTools := enabled\<rparr>;
                       s4 = mcp_RemoveTools (toolsToRemove previousTools (enabledTools s3) []) s3
                   in case addTools (ServerToolToGoSdkTool E) applicableTools s4 of
                        (Some err, s5) \<Rightarrow> (Some err, s5)
                      | (None, s5) \<Rightarrow>
                          (None, s5\<lparr>calls := calls s5 @ [Call_WatchTargets p]\<rparr>))))"

section \<open>Target extraction in pkg/http/authorization.go\<close>

text \<open>
  A decoded JSON value as \<open>encoding/json\<close> stores it in an \<open>interface{}\<close>. The payload
  of a number (a float64) is never inspected by this code; it is a type parameter.
\<close>

datatype 'n json =
  JNull
  | JBool bool
  | JNumber 'n
  | JString string
  | JArray "'n json list"
  | JObject "(string \<times> 'n json) list"

text \<open>
  The request, as far as \<open>extractTargetFromRequest\<close> sees it: no body, or a body whose
  \<open>io.ReadAll\<close> gives an error or the bytes.
\<close>

record Request =
  Body :: "(error + string) option"

text \<open>
  \<open>unmarshal\<close> stands for \<open>json.Unmarshal\<close> into the request struct: an error, or the
  decoded \<open>params.arguments\<close> map (a nil map has no keys).
\<close>

definition extractTargetFromRequest ::
  "(string \<Rightarrow> error + (string \<rightharpoonup> 'n json)) \<Rightarrow> Request \<Rightarrow> string \<Rightarrow>
   (string \<times> error option) \<times> Request" where
  "extractTargetFromRequest unmarshal r targetName =
     (case Body r of
        None \<Rightarrow> (('''', None), r)
      | Some rd \<Rightarrow>
          (case rd of
             Inl err \<Rightarrow> (('''', Some err), r)
           | Inr body \<Rightarrow>
               (let r' = r\<lparr>Body := Some (Inr body)\<rparr>
                in case unmarshal body of
                     Inl err \<Rightarrow> (('''', None), r')
                   | Inr arguments \<Rightarrow>
                       (case arguments targetName of
                          Some (JString cluster) \<Rightarrow> ((cluster, None), r')
                        | _ \<Rightarrow> (('''', None), r')))))"

text \<open>The interface \<open>KubernetesApiTokenVerifier\<close> and the claims' token.\<close>

record KubernetesApiTokenVerifier =
  KubernetesApiVerifyToken :: "string \<Rightarrow> string \<Rightarrow> string \<Rightarrow> error option"
  V_GetTargetParameterName :: string

record JWTClaims =
  Token :: string

definition ValidateWithKubernetesApi ::
  "JWTClaims \<Rightarrow> string \<Rightarrow> string \<Rightarrow> KubernetesApiTokenVerifier option \<Rightarrow> error option" where
  "ValidateWithKubernetesApi c audience cluster verifier =
     (case verifier of
        None \<Rightarrow> None
      | Some v \<Rightarrow>
          (case KubernetesApiVerifyToken v cluster (Token c) audience of
             Some err \<Rightarrow> Some (''kubernetes API token validation error: '' @ err)
           | None \<Rightarrow> None))"

text \<open>
  \<open>validateTokenWithKubernetes\<close> calls a method of the verifier first, which panics on
  a nil interface. The result is the logged lines and the returned error.
\<close>

datatype 'a outcome = Panic | Return 'a

definition validateTokenWithKubernetes ::
  "(string \<Rightarrow> error + (string \<rightharpoonup> 'n json)) \<Rightarrow> Request \<Rightarrow>
   KubernetesApiTokenVerifier option \<Rightarrow> JWTClaims \<Rightarrow> string \<Rightarrow>
   (string list \<times> error option) outcome" where
  "validateTokenWithKubernetes unmarshal r verifier claims audience =
     (case verifier of
        None \<Rightarrow> Panic
      | Some v \<Rightarrow>
          (let targetParameterName = V_GetTargetParameterName v;
               ((cluster, clusterErr), r') =
                  extractTargetFromRequest unmarshal r targetParameterName;
               logged = (case clusterErr of
                           None \<Rightarrow> []
                         | Some err \<Rightarrow>
                             [''Failed to extract cluster from request, using default: '' @ err])
           in Return (logged, ValidateWithKubernetesApi claims audience cluster verifier)))"

section \<open>Auxiliary definitions\<close>

subsection \<open>Notions used to state the properties\<close>

text \<open>
  The call a pass makes at lines 162 to 164: the old provider, if there is one, is closed.
\<close>

definition closeCalls :: "'x Server \<Rightarrow> 'x call list" where
  "closeCalls s = (case cur_p s of None \<Rightarrow> [] | Some old \<Rightarrow> [Call_Close old])"

text \<open>
  The names handed to \<open>RemoveTools\<close> by a pass that starts in \<open>s\<close> and resolves the
  provider \<open>p\<close> and the targets \<open>targets\<close>.
\<close>

definition staleNames ::
  "('s, 'h, 'x) Collaborators \<Rightarrow> 'x Server \<Rightarrow> Provider \<Rightarrow> string list \<Rightarrow> string list" where
  "staleNames E s p targets =
     filter (\<lambda>n. n \<notin> set (snd (buildApplicableTools E (configuration s) p targets)))
       (enabledTools s)"

subsection \<open>Concrete runs\<close>

text \<open>
  Tools without schema and handler, a single-target provider, a conversion that fails on
  the tool named \<open>broken\<close> and keeps the read-only hint in the converted tool, a mutator
  that changes nothing and a target-list filter that admits every tool.
\<close>

definition example_tool :: "string \<Rightarrow> bool option \<Rightarrow> (unit, unit) ServerTool" where
  "example_tool n ro =
     \<lparr>Tool = \<lparr>Name = n, InputSchema = (),
               Annotations = \<lparr>ReadOnlyHint = ro, DestructiveHint = None\<rparr>\<rparr>,
      Handler = ()\<rparr>"

definition example_config :: "bool \<Rightarrow> string list option \<Rightarrow> StaticConfig" where
  "example_config ro en =
     \<lparr>ReadOnly = ro, DisableDestructive = False, EnabledTools = en, DisabledTools = None\<rparr>"

definition example_provider :: "error + string list \<Rightarrow> Provider" where
  "example_provider ts =
     \<lparr>GetTargets = ts, GetTargetParameterName = ''context'', GetDefaultTarget = ''prod''\<rparr>"

definition example_sdk_tool :: "string \<Rightarrow> bool option \<Rightarrow> bool option mcp_Tool" where
  "example_sdk_tool n ro = \<lparr>mcp_Name = n, mcp_Rest = ro\<rparr>"

definition example_convert :: "(unit, unit) ServerTool \<Rightarrow> error + bool option mcp_Tool" where
  "example_convert t =
     (if Name (Tool t) = ''broken'' then Inl ''malformed schema''
      else Inr (example_sdk_tool (Name (Tool t)) (ReadOnlyHint (Annotations (Tool t)))))"

definition example_collaborators ::
  "error + Provider \<Rightarrow> (unit, unit) ServerTool list list \<Rightarrow>
   (unit, unit, bool option) Collaborators" where
  "example_collaborators np catalog =
     \<lparr>NewProvider = (\<lambda>c. np),
      Toolsets_GetTools = (\<lambda>p. catalog),
      WithTargetParameter = (\<lambda>d n ts t. t),
      ShouldIncludeTargetListTool = (\<lambda>n ts t. True),
      ServerToolToGoSdkTool = example_convert\<rparr>"

text \<open>A server after an earlier pass: it holds a provider and advertises the given names.\<close>

definition example_server :: "StaticConfig \<Rightarrow> string list \<Rightarrow> bool option Server" where
  "example_server c names =
     \<lparr>configuration = c, enabledTools = names,
      cur_p = Some (example_provider (Inr [''prod''])),
      server_tools = map_of (map (\<lambda>n. (n, example_sdk_tool n None)) names),
      calls = []\<rparr>"

definition example_p :: Provider where
  "example_p = example_provider (Inr [''prod''])"

definition example_s :: "bool option Server" where
  "example_s = example_server (example_config False None) [''old_tool'']"

text \<open>
  Five environments: one where every step succeeds, one with a tool that cannot be
  converted, one with the same tool name in two toolsets, one whose targets query fails
  and one whose provider cannot be built.
\<close>

definition example_E_ok :: "(unit, unit, bool option) Collaborators" where
  "example_E_ok =
     example_collaborators (Inr example_p)
       [[example_tool ''pods_list'' (Some True), example_tool ''pods_delete'' (Some False)],
        [example_tool ''helm_install'' None]]"

definition example_E_broken :: "(unit, unit, bool option) Collaborators" where
  "example_E_broken =
     example_collaborators (Inr example_p)
       [[example_tool ''new_tool'' None, example_tool ''broken'' None],
        [example_tool ''later_tool'' None]]"

definition example_E_duplicate :: "(unit, unit, bool option) Collaborators" where
  "example_E_duplicate =
     example_collaborators (Inr example_p)
       [[example_tool ''pods_list'' (Some True)], [example_tool ''pods_list'' None]]"

definition example_E_unreachable :: "(unit, unit, bool option) Collaborators" where
  "example_E_unreachable =
     example_collaborators (Inr (example_provider (Inl ''unreachable''))) []"

definition example_E_no_provider :: "(unit, unit, bool option) Collaborators" where
  "example_E_no_provider = example_collaborators (Inl ''invalid kubeconfig'') []"

text \<open>A decoder that knows three request bodies, and a verifier that knows the default target only.\<close>

definition example_unmarshal :: "string \<Rightarrow> error + (string \<rightharpoonup> unit json)" where
  "example_unmarshal body =
     (if body = ''{\"params\":{\"arguments\":{\"context\":7}}}''
        then Inr [''context'' \<mapsto> JNumber ()]
      else if body = ''{\"params\":{\"arguments\":{\"context\":\"staging\"}}}''
        then Inr [''context'' \<mapsto> JString ''staging'']
      else if body = ''{}'' then Inr Map.empty
      else Inl ''invalid character'')"

definition example_verifier :: KubernetesApiTokenVerifier where
  "example_verifier =
     \<lparr>KubernetesApiVerifyToken =
        (\<lambda>cluster token audience. if cluster = [] then None else Some ''unknown cluster''),
      V_GetTargetParameterName = ''context''\<rparr>"

section \<open>Auxiliary lemmas\<close>

lemma computeToolset_eq:
  "computeToolset m f ts (a, e) =
     (a @ filter f (map m ts), e @ map (\<lambda>t. Name (Tool t)) (filter f (map m ts)))"
  by (induction ts arbitrary: a e) (simp_all add: Let_def)

lemma computeToolsets_eq:
  "computeToolsets m f tss (a, e) =
     (a @ filter f (map m (concat tss)),
      e @ map (\<lambda>t. Name (Tool t)) (filter f (map m (concat tss))))"
  by (induction tss arbitrary: a e) (simp_all add: computeToolset_eq)

lemma buildApplicableTools_eq:
  "buildApplicableTools E c p targets =
     (let app = filter (CompositeFilter [isToolApplicable c,
                          ShouldIncludeTargetListTool E (GetTargetParameterName p) targets])
                  (map (WithTargetParameter E (GetDefaultTarget p) (GetTargetParameterName p) targets)
                     (concat (Toolsets_GetTools E p)))
      in (app, map (\<lambda>t. Name (Tool t)) app))"
  by (simp add: buildApplicableTools_def computeToolsets_eq Let_def)

lemma toolsToRemove_eq:
  "toolsToRemove prev en acc = acc @ filter (\<lambda>n. n \<notin> set en) prev"
  by (induction prev arbitrary: acc) simp_all

lemma addTools_ok:
  "map conv ts = map Inr gs \<Longrightarrow>
   addTools conv ts s =
     (None, s\<lparr>server_tools := foldl (\<lambda>m g. m(mcp_Name g \<mapsto> g)) (server_tools s) gs,
              calls := calls s @ map Call_AddTool gs\<rparr>)"
  by (induction ts arbitrary: gs s) (auto simp: mcp_AddTool_def)

lemma addTools_fail:
  "map conv pre = map Inr gs \<Longrightarrow> conv t = Inl e \<Longrightarrow>
   addTools conv (pre @ t # post) s =
     (Some (''failed to convert tool '' @ Name (Tool t) @ '': '' @ e),
      s\<lparr>server_tools := foldl (\<lambda>m g. m(mcp_Name g \<mapsto> g)) (server_tools s) gs,
        calls := calls s @ map Call_AddTool gs\<rparr>)"
  by (induction pre arbitrary: gs s) (auto simp: mcp_AddTool_def)

lemma convert_cases:
  "(\<exists>gs. map conv ts = map Inr gs) \<or>
   (\<exists>pre t post gs e. ts = pre @ t # post \<and> map conv pre = map Inr gs \<and> conv t = Inl e)"
proof (induction ts)
  case Nil
  then show ?case by simp
next
  case (Cons a ts)
  show ?case
  proof (cases "conv a")
    case (Inl e)
    then have "a # ts = [] @ a # ts \<and> map conv [] = map Inr [] \<and> conv a = Inl e" by simp
    then show ?thesis by blast
  next
    case (Inr g)
    from Cons.IH show ?thesis
    proof
      assume "\<exists>gs. map conv ts = map Inr gs"
      then obtain gs where "map conv ts = map Inr gs" ..
      with Inr have "map conv (a # ts) = map Inr (g # gs)" by simp
      then show ?thesis by blast
    next
      assume "\<exists>pre t post gs e. ts = pre @ t # post \<and> map conv pre = map Inr gs \<and> conv t = Inl e"
      then obtain pre t post gs e where
        "ts = pre @ t # post" "map conv pre = map Inr gs" "conv t = Inl e" by blast
      with Inr have "a # ts = (a # pre) @ t # post \<and> map conv (a # pre) = map Inr (g # gs) \<and> conv t = Inl e"
        by simp
      then show ?thesis by blast
    qed
  qed
qed

lemma reload_NewProvider_fails:
  "NewProvider E (configuration s) = Inl e \<Longrightarrow>
   reloadKubernetesClusterProvider E s = (Some e, s)"
  by (simp add: reloadKubernetesClusterProvider_def)

lemma reload_GetTargets_fails:
  "NewProvider E (configuration s) = Inr p \<Longrightarrow> GetTargets p = Inl e \<Longrightarrow>
   reloadKubernetesClusterProvider E s =
     (Some e, s\<lparr>cur_p := Some p, calls := calls s @ closeCalls s\<rparr>)"
  by (simp add: reloadKubernetesClusterProvider_def closeCalls_def Let_def split: option.splits)

lemma reload_converted:
  assumes "NewProvider E (configuration s) = Inr p" and "GetTargets p = Inr targets"
    and "map (ServerToolToGoSdkTool E) (fst (buildApplicableTools E (configuration s) p targets))
           = map Inr gs"
  shows "reloadKubernetesClusterProvider E s =
     (None,
      s\<lparr>enabledTools := snd (buildApplicableTools E (configuration s) p targets),
        cur_p := Some p,
        server_tools :=
          foldl (\<lambda>m g. m(mcp_Name g \<mapsto> g))
            (\<lambda>n. if n \<in> set (staleNames E s p targets) then None else server_tools s n) gs,
        calls := calls s @ closeCalls s @ [Call_RemoveTools (staleNames E s p targets)]
                   @ map Call_AddTool gs @ [Call_WatchTargets p]\<rparr>)"
proof -
  obtain app en where b: "buildApplicableTools E (configuration s) p targets = (app, en)"
    by (cases "buildApplicableTools E (configuration s) p targets")
  with assms(3) have c: "map (ServerToolToGoSdkTool E) app = map Inr gs" by simp
  show ?thesis
    by (cases "cur_p s")
      (simp_all add: reloadKubernetesClusterProvider_def assms(1,2) b closeCalls_def
        staleNames_def Let_def toolsToRemove_eq addTools_ok [OF c] mcp_RemoveTools_def
        cong: if_cong)
qed

lemma reload_conversion_fails:
  assumes "NewProvider E (configuration s) = Inr p" and "GetTargets p = Inr targets"
    and "fst (buildApplicableTools E (configuration s) p targets) = pre @ t # post"
    and "map (ServerToolToGoSdkTool E) pre = map Inr gs"
    and "ServerToolToGoSdkTool E t = Inl e"
  shows "reloadKubernetesClusterProvider E s =
     (Some (''failed to convert tool '' @ Name (Tool t) @ '': '' @ e),
      s\<lparr>enabledTools := snd (buildApplicableTools E (configuration s) p targets),
        cur_p := Some p,
        server_tools :=
          foldl (\<lambda>m g. m(mcp_Name g \<mapsto> g))
            (\<lambda>n. if n \<in> set (staleNames E s p targets) then None else server_tools s n) gs,
        calls := calls s @ closeCalls s @ [Call_RemoveTools (staleNames E s p targets)]
                   @ map Call_AddTool gs\<rparr>)"
proof -
  obtain app en where b: "buildApplicableTools E (configuration s) p targets = (app, en)"
    by (cases "buildApplicableTools E (configuration s) p targets")
  with assms(3) have c: "app = pre @ t # post" by simp
  show ?thesis
    by (cases "cur_p s")
      (simp_all add: reloadKubernetesClusterProvider_def assms(1,2) b c closeCalls_def
        staleNames_def Let_def toolsToRemove_eq addTools_fail [OF assms(4,5)]
        mcp_RemoveTools_def cong: if_cong)
qed

lemmas example_defs =
  example_tool_def example_config_def example_provider_def example_sdk_tool_def
  example_convert_def example_collaborators_def example_server_def

lemmas pass_defs =
  reloadKubernetesClusterProvider_def buildApplicableTools_def CompositeFilter_def
  isToolApplicable_def ptr_Deref_def slices_Contains_def mcp_RemoveTools_def mcp_AddTool_def
  Let_def

lemma CompositeFilter_pair: "CompositeFilter [f, g] t = (f t \<and> g t)"
  by (simp add: CompositeFilter_def)

lemma isToolApplicable_ReadOnly:
  "ReadOnly c \<Longrightarrow> isToolApplicable c t \<Longrightarrow> ReadOnlyHint (Annotations (Tool t)) = Some True"
  by (auto simp: isToolApplicable_def ptr_Deref_def split: if_splits option.splits)

lemma foldl_upd_lookup:
  "foldl (\<lambda>m g. m(mcp_Name g \<mapsto> g)) m gs n =
     (if filter (\<lambda>h. mcp_Name h = n) gs = [] then m n
      else Some (last (filter (\<lambda>h. mcp_Name h = n) gs)))"
  by (induction gs rule: rev_induct) auto

lemma foldl_upd_twice:
  "foldl (\<lambda>m g. m(mcp_Name g \<mapsto> g)) (foldl (\<lambda>m g. m(mcp_Name g \<mapsto> g)) m gs) gs =
   foldl (\<lambda>m g. m(mcp_Name g \<mapsto> g)) m gs"
  by (rule ext) (simp add: foldl_upd_lookup)

lemma snd_buildApplicableTools:
  "snd (buildApplicableTools E c p targets)
     = map (\<lambda>u. Name (Tool u)) (fst (buildApplicableTools E c p targets))"
  by (simp add: buildApplicableTools_eq Let_def)

lemma staleNames_set:
  "set (staleNames E s p targets) =
     set (enabledTools s) - set (snd (buildApplicableTools E (configuration s) p targets))"
  by (auto simp: staleNames_def)

lemma staleNames_again:
  "enabledTools s1 = snd (buildApplicableTools E (configuration s) p targets) \<Longrightarrow>
   configuration s1 = configuration s \<Longrightarrow> staleNames E s1 p targets = []"
  by (simp add: staleNames_def)

lemma closeCalls_not_remove: "Call_RemoveTools names \<notin> set (closeCalls s)"
  by (simp add: closeCalls_def split: option.splits)

lemma closeCalls_not_add: "Call_AddTool g \<notin> set (closeCalls s)"
  by (simp add: closeCalls_def split: option.splits)

lemma closeCalls_not_watch: "Call_WatchTargets q \<notin> set (closeCalls s)"
  by (simp add: closeCalls_def split: option.splits)

lemmas scenario_defs =
  example_p_def example_E_ok_def example_E_broken_def example_E_duplicate_def
  example_E_unreachable_def example_E_no_provider_def example_s_def

lemma reload_cases:
  obtains (np_fail) e where "NewProvider E (configuration s) = Inl e"
  | (gt_fail) p e where "NewProvider E (configuration s) = Inr p" and "GetTargets p = Inl e"
  | (converted) p targets gs where "NewProvider E (configuration s) = Inr p"
      and "GetTargets p = Inr targets"
      and "map (ServerToolToGoSdkTool E)
             (fst (buildApplicableTools E (configuration s) p targets)) = map Inr gs"
  | (cv_fail) p targets pre t post gs e where "NewProvider E (configuration s) = Inr p"
      and "GetTargets p = Inr targets"
      and "fst (buildApplicableTools E (configuration s) p targets) = pre @ t # post"
      and "map (ServerToolToGoSdkTool E) pre = map Inr gs"
      and "ServerToolToGoSdkTool E t = Inl e"
proof (cases "NewProvider E (configuration s)")
  case (Inl e)
  then show ?thesis by (rule np_fail)
next
  case (Inr p)
  note np = this
  show ?thesis
  proof (cases "GetTargets p")
    case (Inl e)
    with np show ?thesis by (rule gt_fail)
  next
    case (Inr targets)
    from convert_cases [of "ServerToolToGoSdkTool E"
        "fst (buildApplicableTools E (configuration s) p targets)"]
    show ?thesis
    proof
      assume "\<exists>gs. map (ServerToolToGoSdkTool E)
                (fst (buildApplicableTools E (configuration s) p targets)) = map Inr gs"
      then obtain gs where "map (ServerToolToGoSdkTool E)
                (fst (buildApplicableTools E (configuration s) p targets)) = map Inr gs" ..
      with np Inr show ?thesis by (rule converted)
    next
      assume "\<exists>pre t post gs e.
               fst (buildApplicableTools E (configuration s) p targets) = pre @ t # post \<and>
               map (ServerToolToGoSdkTool E) pre = map Inr gs \<and> ServerToolToGoSdkTool E t = Inl e"
      then obtain pre t post gs e where
        "fst (buildApplicableTools E (configuration s) p targets) = pre @ t # post"
        "map (ServerToolToGoSdkTool E) pre = map Inr gs" "ServerToolToGoSdkTool E t = Inl e"
        by blast
      with np Inr show ?thesis by (rule cv_fail)
    qed
  qed
qed

lemma calls_split_intro:
  "cs' = cs @ b @ a \<Longrightarrow> (\<forall>g. Call_AddTool g \<notin> set b) \<Longrightarrow>
   (\<forall>names. Call_RemoveTools names \<notin> set a) \<Longrightarrow>
   \<exists>before after. cs' = cs @ before @ after \<and>
     (\<forall>g. Call_AddTool g \<notin> set before) \<and> (\<forall>names. Call_RemoveTools names \<notin> set after)"
  by (rule exI [of _ b], rule exI [of _ a]) simp

lemma reload_calls_split:
  "\<exists>before after.
     calls (snd (reloadKubernetesClusterProvider E s)) = calls s @ before @ after \<and>
     (\<forall>g. Call_AddTool g \<notin> set before) \<and> (\<forall>names. Call_RemoveTools names \<notin> set after)"
proof (cases rule: reload_cases [of E s])
  case (np_fail e)
  then have "calls (snd (reloadKubernetesClusterProvider E s)) = calls s @ [] @ []"
    by (simp add: reload_NewProvider_fails)
  then show ?thesis by (rule calls_split_intro) simp_all
next
  case (gt_fail p e)
  then have "calls (snd (reloadKubernetesClusterProvider E s)) = calls s @ closeCalls s @ []"
    by (simp add: reload_GetTargets_fails)
  moreover have "\<forall>g. Call_AddTool g \<notin> set (closeCalls s)"
    by (simp add: closeCalls_not_add)
  ultimately show ?thesis by (rule calls_split_intro) simp
next
  case (converted p targets gs)
  have "calls (snd (reloadKubernetesClusterProvider E s))
          = calls s @ (closeCalls s @ [Call_RemoveTools (staleNames E s p targets)])
              @ (map Call_AddTool gs @ [Call_WatchTargets p])"
    by (simp add: reload_converted [OF converted])
  moreover have "\<forall>g. Call_AddTool g
       \<notin> set (closeCalls s @ [Call_RemoveTools (staleNames E s p targets)])"
    by (simp add: closeCalls_not_add)
  moreover have "\<forall>names. Call_RemoveTools names
       \<notin> set (map Call_AddTool gs @ [Call_WatchTargets p])"
    by auto
  ultimately show ?thesis by (rule calls_split_intro)
next
  case (cv_fail p targets pre t post gs e)
  have "calls (snd (reloadKubernetesClusterProvider E s))
          = calls s @ (closeCalls s @ [Call_RemoveTools (staleNames E s p targets)])
              @ map Call_AddTool gs"
    by (simp add: reload_conversion_fails [OF cv_fail])
  moreover have "\<forall>g. Call_AddTool g
       \<notin> set (closeCalls s @ [Call_RemoveTools (staleNames E s p targets)])"
    by (simp add: closeCalls_not_add)
  moreover have "\<forall>names. Call_RemoveTools names \<notin> set (map Call_AddTool gs)"
    by auto
  ultimately show ?thesis by (rule calls_split_intro)
qed

lemma example_ok_pass:
  "reloadKubernetesClusterProvider example_E_ok example_s =
     (None,
      example_s\<lparr>enabledTools := [''pods_list'', ''pods_delete'', ''helm_install''],
        cur_p := Some example_p,
        server_tools :=
          (\<lambda>n. if n \<in> set [''old_tool''] then None else server_tools example_s n)
          (''pods_list'' \<mapsto> example_sdk_tool ''pods_list'' (Some True),
           ''pods_delete'' \<mapsto> example_sdk_tool ''pods_delete'' (Some False),
           ''helm_install'' \<mapsto> example_sdk_tool ''helm_install'' None),
        calls := [Call_Close example_p, Call_RemoveTools [''old_tool''],
                  Call_AddTool (example_sdk_tool ''pods_list'' (Some True)),
                  Call_AddTool (example_sdk_tool ''pods_delete'' (Some False)),
                  Call_AddTool (example_sdk_tool ''helm_install'' None),
                  Call_WatchTargets example_p]\<rparr>)"
  by (simp add: scenario_defs example_defs pass_defs cong: if_cong)

lemma example_unreachable_pass:
  "reloadKubernetesClusterProvider example_E_unreachable example_s =
     (Some ''unreachable'',
      example_s\<lparr>cur_p := Some (example_provider (Inl ''unreachable'')),
        calls := [Call_Close example_p]\<rparr>)"
  by (simp add: scenario_defs example_defs pass_defs)

lemma watch_call_cases:
  "(fst (reloadKubernetesClusterProvider E s) = None \<longrightarrow>
      (\<exists>p earlier. NewProvider E (configuration s) = Inr p \<and>
         cur_p (snd (reloadKubernetesClusterProvider E s)) = Some p \<and>
         calls (snd (reloadKubernetesClusterProvider E s))
           = calls s @ earlier @ [Call_WatchTargets p])) \<and>
   (fst (reloadKubernetesClusterProvider E s) \<noteq> None \<longrightarrow>
      (\<exists>issued. calls (snd (reloadKubernetesClusterProvider E s)) = calls s @ issued \<and>
         (\<forall>q. Call_WatchTargets q \<notin> set issued)))"
proof (cases rule: reload_cases [of E s])
  case (np_fail e)
  then have "reloadKubernetesClusterProvider E s = (Some e, s)"
    by (rule reload_NewProvider_fails)
  then show ?thesis by simp
next
  case (gt_fail p e)
  have "\<exists>issued. calls s @ closeCalls s = calls s @ issued \<and>
          (\<forall>q. Call_WatchTargets q \<notin> set issued)"
    by (rule exI [of _ "closeCalls s"]) (simp add: closeCalls_not_watch)
  then show ?thesis by (simp add: reload_GetTargets_fails [OF gt_fail])
next
  case (converted p targets gs)
  have "\<exists>earlier. calls s @ closeCalls s @ [Call_RemoveTools (staleNames E s p targets)]
                     @ map Call_AddTool gs @ [Call_WatchTargets p]
                   = calls s @ earlier @ [Call_WatchTargets p]"
    by (rule exI [of _ "closeCalls s @ [Call_RemoveTools (staleNames E s p targets)]
                          @ map Call_AddTool gs"]) simp
  then show ?thesis by (simp add: reload_converted [OF converted] converted(1))
next
  case (cv_fail p targets pre t post gs e)
  have "\<exists>issued. calls s @ closeCalls s @ [Call_RemoveTools (staleNames E s p targets)]
                     @ map Call_AddTool gs = calls s @ issued \<and>
          (\<forall>q. Call_WatchTargets q \<notin> set issued)"
    by (rule exI [of _ "closeCalls s @ [Call_RemoveTools (staleNames E s p targets)]
                          @ map Call_AddTool gs"]) (auto simp: closeCalls_not_watch)
  then show ?thesis by (simp add: reload_conversion_fails [OF cv_fail])
qed

lemma aborted_pass_issues_no_watch:
  "fst (reloadKubernetesClusterProvider E s) \<noteq> None \<Longrightarrow>
   \<exists>issued. calls (snd (reloadKubernetesClusterProvider E s)) = calls s @ issued \<and>
     (\<forall>q. Call_WatchTargets q \<notin> set issued)"
  using watch_call_cases [of E s] by blast

section \<open>Conversion failure\<close>

text \<open>
  Claim C1 says that a conversion failure in the Applying phase aborts the pass and leaves
  the advertised tool set and the stored names as they were. The pass does abort with an
  error, but nothing is undone. In the run below the catalog holds \<open>new_tool\<close>, then
  \<open>broken\<close> (whose conversion fails), then \<open>later_tool\<close>, and the server advertised
  \<open>old_tool\<close>: after the failed pass \<open>old_tool\<close> is gone from the protocol server, \<open>new_tool\<close> is installed and
  \<open>enabledTools\<close> holds the new names.
\<close>

theorem conversion_failure_counterexample:
  "fst (reloadKubernetesClusterProvider example_E_broken example_s)
     = Some ''failed to convert tool broken: malformed schema'' \<and>
   server_tools example_s ''old_tool'' = Some (example_sdk_tool ''old_tool'' None) \<and>
   server_tools (snd (reloadKubernetesClusterProvider example_E_broken example_s)) ''old_tool''
     = None \<and>
   server_tools example_s ''new_tool'' = None \<and>
   server_tools (snd (reloadKubernetesClusterProvider example_E_broken example_s)) ''new_tool''
     = Some (example_sdk_tool ''new_tool'' None) \<and>
   enabledTools example_s = [''old_tool''] \<and>
   enabledTools (snd (reloadKubernetesClusterProvider example_E_broken example_s))
     = [''new_tool'', ''broken'', ''later_tool'']"
  by (simp add: scenario_defs example_defs pass_defs)

text \<open>
  Claim C1, as amended: when the conversion of an applicable tool fails, the pass returns
  the error \<open>failed to convert tool NAME: ERR\<close> for the first such tool \<open>t\<close>. By then
  \<open>enabledTools\<close> holds all newly computed names, the stale names have been removed from
  the protocol server, the tools \<open>pre\<close> that precede \<open>t\<close> have been installed, and the
  calls issued are the close of the old provider, one \<open>RemoveTools\<close> and the \<open>AddTool\<close>
  calls for \<open>pre\<close>; no tool after \<open>t\<close> is installed and nothing is rolled back.
\<close>

theorem conversion_failure_aborts:
  assumes "NewProvider E (configuration s) = Inr p" and "GetTargets p = Inr targets"
    and "fst (buildApplicableTools E (configuration s) p targets) = pre @ t # post"
    and "map (ServerToolToGoSdkTool E) pre = map Inr gs"
    and "ServerToolToGoSdkTool E t = Inl e"
  shows "fst (reloadKubernetesClusterProvider E s)
           = Some (''failed to convert tool '' @ Name (Tool t) @ '': '' @ e) \<and>
         enabledTools (snd (reloadKubernetesClusterProvider E s))
           = map (\<lambda>u. Name (Tool u)) (pre @ t # post) \<and>
         server_tools (snd (reloadKubernetesClusterProvider E s))
           = foldl (\<lambda>m g. m(mcp_Name g \<mapsto> g))
               (\<lambda>n. if n \<in> set (staleNames E s p targets) then None else server_tools s n) gs \<and>
         calls (snd (reloadKubernetesClusterProvider E s))
           = calls s @ closeCalls s @ [Call_RemoveTools (staleNames E s p targets)]
               @ map Call_AddTool gs"
proof -
  have "snd (buildApplicableTools E (configuration s) p targets)
          = map (\<lambda>u. Name (Tool u)) (fst (buildApplicableTools E (configuration s) p targets))"
    by (simp add: buildApplicableTools_eq Let_def)
  with assms(3) have "snd (buildApplicableTools E (configuration s) p targets)
          = map (\<lambda>u. Name (Tool u)) (pre @ t # post)" by simp
  then show ?thesis
    by (simp add: reload_conversion_fails [OF assms])
qed

text \<open>The amended claim C1 at the run of the counterexample.\<close>

theorem conversion_failure_aborts_witness:
  "NewProvider example_E_broken (configuration example_s) = Inr example_p \<and>
   GetTargets example_p = Inr [''prod''] \<and>
   fst (buildApplicableTools example_E_broken (configuration example_s) example_p [''prod''])
     = [example_tool ''new_tool'' None] @ example_tool ''broken'' None
         # [example_tool ''later_tool'' None] \<and>
   map (ServerToolToGoSdkTool example_E_broken) [example_tool ''new_tool'' None]
     = map Inr [example_sdk_tool ''new_tool'' None] \<and>
   ServerToolToGoSdkTool example_E_broken (example_tool ''broken'' None) = Inl ''malformed schema'' \<and>
   fst (reloadKubernetesClusterProvider example_E_broken example_s)
     = Some ''failed to convert tool broken: malformed schema'' \<and>
   enabledTools (snd (reloadKubernetesClusterProvider example_E_broken example_s))
     = [''new_tool'', ''broken'', ''later_tool''] \<and>
   calls (snd (reloadKubernetesClusterProvider example_E_broken example_s))
     = [Call_Close example_p, Call_RemoveTools [''old_tool''],
        Call_AddTool (example_sdk_tool ''new_tool'' None)]"
proof -
  have h1: "NewProvider example_E_broken (configuration example_s) = Inr example_p"
    by (simp add: scenario_defs example_defs)
  have h2: "GetTargets example_p = Inr [''prod'']"
    by (simp add: scenario_defs example_defs)
  have h3: "fst (buildApplicableTools example_E_broken (configuration example_s) example_p [''prod''])
     = [example_tool ''new_tool'' None] @ example_tool ''broken'' None
         # [example_tool ''later_tool'' None]"
    by (simp add: scenario_defs example_defs pass_defs)
  have h4: "map (ServerToolToGoSdkTool example_E_broken) [example_tool ''new_tool'' None]
     = map Inr [example_sdk_tool ''new_tool'' None]"
    by (simp add: scenario_defs example_defs)
  have h5: "ServerToolToGoSdkTool example_E_broken (example_tool ''broken'' None)
     = Inl ''malformed schema''"
    by (simp add: scenario_defs example_defs)
  have st: "staleNames example_E_broken example_s example_p [''prod''] = [''old_tool'']"
    by (simp add: staleNames_def scenario_defs example_defs pass_defs)
  have cc: "closeCalls example_s = [Call_Close example_p]"
    by (simp add: closeCalls_def scenario_defs example_defs)
  have cs: "calls example_s = []"
    by (simp add: scenario_defs example_defs)
  have nm: "Name (Tool (example_tool ''new_tool'' None)) = ''new_tool''"
    "Name (Tool (example_tool ''broken'' None)) = ''broken''"
    "Name (Tool (example_tool ''later_tool'' None)) = ''later_tool''"
    by (simp_all add: example_defs)
  from conversion_failure_aborts [OF h1 h2 h3 h4 h5] h1 h2 h3 h4 h5 st cc cs nm
  show ?thesis by simp
qed

section \<open>Resolution failure\<close>

text \<open>
  Claim C2: if the Resolving phase fails, because \<open>NewProvider\<close> or \<open>GetTargets\<close> returns
  an error, the pass returns that error and both the tools installed in the protocol
  server and the stored \<open>enabledTools\<close> are exactly as before the pass.
\<close>

theorem resolving_failure_keeps_tools:
  assumes "NewProvider E (configuration s) = Inl e \<or>
           (\<exists>p. NewProvider E (configuration s) = Inr p \<and> GetTargets p = Inl e)"
  shows "fst (reloadKubernetesClusterProvider E s) = Some e \<and>
         server_tools (snd (reloadKubernetesClusterProvider E s)) = server_tools s \<and>
         enabledTools (snd (reloadKubernetesClusterProvider E s)) = enabledTools s"
  using assms
  by (auto simp: reload_NewProvider_fails reload_GetTargets_fails)

text \<open>Claim C2 at a run whose targets query fails and at a run whose provider cannot be built.\<close>

theorem resolving_failure_keeps_tools_witness:
  "(NewProvider example_E_unreachable (configuration example_s) = Inl ''unreachable'' \<or>
    (\<exists>p. NewProvider example_E_unreachable (configuration example_s) = Inr p \<and>
         GetTargets p = Inl ''unreachable'')) \<and>
   fst (reloadKubernetesClusterProvider example_E_unreachable example_s) = Some ''unreachable'' \<and>
   server_tools (snd (reloadKubernetesClusterProvider example_E_unreachable example_s))
     = server_tools example_s \<and>
   enabledTools (snd (reloadKubernetesClusterProvider example_E_unreachable example_s))
     = [''old_tool''] \<and>
   (NewProvider example_E_no_provider (configuration example_s) = Inl ''invalid kubeconfig'' \<or>
    (\<exists>p. NewProvider example_E_no_provider (configuration example_s) = Inr p \<and>
         GetTargets p = Inl ''invalid kubeconfig'')) \<and>
   fst (reloadKubernetesClusterProvider example_E_no_provider example_s)
     = Some ''invalid kubeconfig'' \<and>
   server_tools (snd (reloadKubernetesClusterProvider example_E_no_provider example_s))
     = server_tools example_s \<and>
   enabledTools (snd (reloadKubernetesClusterProvider example_E_no_provider example_s))
     = [''old_tool'']"
proof -
  have h1: "NewProvider example_E_unreachable (configuration example_s) = Inl ''unreachable'' \<or>
    (\<exists>p. NewProvider example_E_unreachable (configuration example_s) = Inr p \<and>
         GetTargets p = Inl ''unreachable'')"
    by (simp add: scenario_defs example_defs)
  have h2: "NewProvider example_E_no_provider (configuration example_s)
              = Inl ''invalid kubeconfig'' \<or>
    (\<exists>p. NewProvider example_E_no_provider (configuration example_s) = Inr p \<and>
         GetTargets p = Inl ''invalid kubeconfig'')"
    by (simp add: example_E_no_provider_def example_defs)
  have e: "enabledTools example_s = [''old_tool'']"
    by (simp add: scenario_defs example_defs)
  from h1 h2 resolving_failure_keeps_tools [OF h1] resolving_failure_keeps_tools [OF h2] e
  show ?thesis by simp
qed

section \<open>Re-arming the watch\<close>

text \<open>
  Claim C3: after every pass, a pass aborted by a failing target resolution included, the
  watch of the Target Resolver is re-armed, so that the aborted computation is retried
  on the next trigger. The code departs from this on a pass whose targets query fails.
  The server below holds the provider \<open>example_p\<close>; the pass builds a new provider,
  closes \<open>example_p\<close> (lines 162 to 164), stores the new one (line 166) and returns the
  error of \<open>GetTargets\<close> at line 170, before the \<open>WatchTargets\<close> call of line 220. The only
  call the pass issues is that close: the stored provider is left unwatched and the
  provider that may have held a watch is closed, so no later trigger retries the pass.
  A pass that fails earlier, at \<open>NewProvider\<close>, keeps the old provider and its watch
  (\<open>reload_NewProvider_fails\<close>), and a completed pass ends with \<open>WatchTargets\<close> on the
  stored provider (\<open>watch_call_cases\<close>).
\<close>

theorem targets_failure_leaves_provider_unwatched:
  "fst (reloadKubernetesClusterProvider example_E_unreachable example_s) = Some ''unreachable'' \<and>
   cur_p example_s = Some example_p \<and>
   calls example_s = [] \<and>
   calls (snd (reloadKubernetesClusterProvider example_E_unreachable example_s))
     = [Call_Close example_p] \<and>
   cur_p (snd (reloadKubernetesClusterProvider example_E_unreachable example_s))
     = Some (example_provider (Inl ''unreachable''))"
  by (simp add: example_unreachable_pass) (simp add: scenario_defs example_defs)

section \<open>Duplicate tool names\<close>

text \<open>
  Claim C4 says that tool names are tracked for uniqueness and that a duplicate is
  reported. The pass has no such tracking: with \<open>pods_list\<close> in two toolsets it succeeds,
  \<open>enabledTools\<close> holds the name twice, and the calls it issues are one close, one
  \<open>RemoveTools\<close>, two \<open>AddTool\<close> and one \<open>WatchTargets\<close>: nothing is reported.
\<close>

theorem duplicate_names_counterexample:
  "fst (reloadKubernetesClusterProvider example_E_duplicate example_s) = None \<and>
   enabledTools (snd (reloadKubernetesClusterProvider example_E_duplicate example_s))
     = [''pods_list'', ''pods_list''] \<and>
   calls (snd (reloadKubernetesClusterProvider example_E_duplicate example_s))
     = [Call_Close example_p, Call_RemoveTools [''old_tool''],
        Call_AddTool (example_sdk_tool ''pods_list'' (Some True)),
        Call_AddTool (example_sdk_tool ''pods_list'' None),
        Call_WatchTargets example_p]"
  by (simp add: scenario_defs example_defs pass_defs)

text \<open>
  Claim C4, as amended: the Computing phase keeps every catalog entry that passes the
  filter, in catalog order and with duplicates, in the applicable list, and
  \<open>enabledTools\<close> holds their names in the same order. Nothing is reported. The outcome on
  a duplicate is deterministic: in a pass whose conversions all succeed the tools are
  installed in that order, so the protocol server ends up holding, for each name, the
  last tool installed under it (last registered wins).
\<close>

theorem duplicate_names_last_wins:
  assumes "NewProvider E (configuration s) = Inr p" and "GetTargets p = Inr targets"
    and "map (ServerToolToGoSdkTool E)
           (fst (buildApplicableTools E (configuration s) p targets)) = map Inr gs"
    and "g \<in> set gs"
  shows "fst (buildApplicableTools E (configuration s) p targets)
           = filter (CompositeFilter [isToolApplicable (configuration s),
                       ShouldIncludeTargetListTool E (GetTargetParameterName p) targets])
               (map (WithTargetParameter E (GetDefaultTarget p) (GetTargetParameterName p) targets)
                  (concat (Toolsets_GetTools E p))) \<and>
         fst (reloadKubernetesClusterProvider E s) = None \<and>
         enabledTools (snd (reloadKubernetesClusterProvider E s))
           = map (\<lambda>t. Name (Tool t)) (fst (buildApplicableTools E (configuration s) p targets)) \<and>
         calls (snd (reloadKubernetesClusterProvider E s))
           = calls s @ closeCalls s @ [Call_RemoveTools (staleNames E s p targets)]
               @ map Call_AddTool gs @ [Call_WatchTargets p] \<and>
         server_tools (snd (reloadKubernetesClusterProvider E s)) (mcp_Name g)
           = Some (last (filter (\<lambda>h. mcp_Name h = mcp_Name g) gs))"
proof -
  from assms(4) have "filter (\<lambda>h. mcp_Name h = mcp_Name g) gs \<noteq> []"
    by (auto simp: filter_empty_conv)
  then show ?thesis
    by (simp add: reload_converted [OF assms(1-3)] foldl_upd_lookup snd_buildApplicableTools)
      (simp add: buildApplicableTools_eq Let_def)
qed

text \<open>The amended claim C4 at the run of the counterexample: the second \<open>pods_list\<close> wins.\<close>

theorem duplicate_names_last_wins_witness:
  "NewProvider example_E_duplicate (configuration example_s) = Inr example_p \<and>
   GetTargets example_p = Inr [''prod''] \<and>
   map (ServerToolToGoSdkTool example_E_duplicate)
     (fst (buildApplicableTools example_E_duplicate (configuration example_s) example_p [''prod'']))
     = map Inr [example_sdk_tool ''pods_list'' (Some True), example_sdk_tool ''pods_list'' None] \<and>
   example_sdk_tool ''pods_list'' (Some True)
     \<in> set [example_sdk_tool ''pods_list'' (Some True), example_sdk_tool ''pods_list'' None] \<and>
   enabledTools (snd (reloadKubernetesClusterProvider example_E_duplicate example_s))
     = [''pods_list'', ''pods_list''] \<and>
   server_tools (snd (reloadKubernetesClusterProvider example_E_duplicate example_s)) ''pods_list''
     = Some (example_sdk_tool ''pods_list'' None)"
proof -
  have h1: "NewProvider example_E_duplicate (configuration example_s) = Inr example_p"
    by (simp add: scenario_defs example_defs)
  have h2: "GetTargets example_p = Inr [''prod'']"
    by (simp add: scenario_defs example_defs)
  have ap: "fst (buildApplicableTools example_E_duplicate (configuration example_s)
                  example_p [''prod''])
              = [example_tool ''pods_list'' (Some True), example_tool ''pods_list'' None]"
    by (simp add: scenario_defs example_defs pass_defs)
  have h3: "map (ServerToolToGoSdkTool example_E_duplicate)
     (fst (buildApplicableTools example_E_duplicate (configuration example_s) example_p [''prod'']))
     = map Inr [example_sdk_tool ''pods_list'' (Some True), example_sdk_tool ''pods_list'' None]"
    by (simp add: ap) (simp add: scenario_defs example_defs)
  have h4: "example_sdk_tool ''pods_list'' (Some True)
     \<in> set [example_sdk_tool ''pods_list'' (Some True), example_sdk_tool ''pods_list'' None]"
    by simp
  have nm: "map (\<lambda>t. Name (Tool t))
              [example_tool ''pods_list'' (Some True), example_tool ''pods_list'' None]
            = [''pods_list'', ''pods_list'']"
    "mcp_Name (example_sdk_tool ''pods_list'' (Some True)) = ''pods_list''"
    "mcp_Name (example_sdk_tool ''pods_list'' None) = ''pods_list''"
    "Name (Tool (example_tool ''pods_list'' (Some True))) = ''pods_list''"
    "Name (Tool (example_tool ''pods_list'' None)) = ''pods_list''"
    by (simp_all add: example_defs)
  from duplicate_names_last_wins [OF h1 h2 h3 h4] h1 h2 h3 h4 ap nm
  show ?thesis by simp
qed

section \<open>Read-only mode\<close>

text \<open>
  Claim C5: with read-only mode enabled, every tool in the applicable list that a pass
  computes has its read-only annotation set to true, whatever the catalog, the mutator
  and the target-list filter are.
\<close>

theorem readOnly_applicable_tools:
  assumes "ReadOnly c" and "t \<in> set (fst (buildApplicableTools E c p targets))"
  shows "ReadOnlyHint (Annotations (Tool t)) = Some True"
proof -
  from assms(2) have "isToolApplicable c t"
    by (auto simp: buildApplicableTools_eq Let_def CompositeFilter_pair)
  with assms(1) show ?thesis by (rule isToolApplicable_ReadOnly)
qed

text \<open>Claim C5 at a catalog of three tools, of which only \<open>pods_list\<close> is read-only.\<close>

theorem readOnly_applicable_tools_witness:
  "ReadOnly (example_config True None) \<and>
   example_tool ''pods_list'' (Some True)
     \<in> set (fst (buildApplicableTools
          (example_collaborators (Inr (example_provider (Inr [''prod''])))
             [[example_tool ''pods_list'' (Some True), example_tool ''pods_delete'' (Some False)],
              [example_tool ''helm_install'' None]])
          (example_config True None) (example_provider (Inr [''prod''])) [''prod''])) \<and>
   ReadOnlyHint (Annotations (Tool (example_tool ''pods_list'' (Some True)))) = Some True"
proof -
  have h1: "ReadOnly (example_config True None)"
    by (simp add: example_config_def)
  have h2: "example_tool ''pods_list'' (Some True)
     \<in> set (fst (buildApplicableTools
          (example_collaborators (Inr (example_provider (Inr [''prod''])))
             [[example_tool ''pods_list'' (Some True), example_tool ''pods_delete'' (Some False)],
              [example_tool ''helm_install'' None]])
          (example_config True None) (example_provider (Inr [''prod''])) [''prod'']))"
    by (simp add: example_defs pass_defs)
  from h1 h2 readOnly_applicable_tools [OF h1 h2] show ?thesis by simp
qed

section \<open>The enabled-tools rule\<close>

text \<open>
  Claim C6 says that an empty enabled-tool-names collection imposes no restriction. The
  guard of the rule is \<open>c.EnabledTools != nil\<close>: with a non-nil empty slice the tool
  \<open>pods_list\<close> is excluded, although the same configuration with a nil slice admits it.
\<close>

theorem enabledTools_rule_counterexample:
  "\<not> isToolApplicable (example_config False (Some [])) (example_tool ''pods_list'' (Some True)) \<and>
   isToolApplicable (example_config False None) (example_tool ''pods_list'' (Some True)) \<and>
   EnabledTools (example_config False (Some [])) = Some []"
  by (simp add: example_defs isToolApplicable_def ptr_Deref_def slices_Contains_def)

text \<open>
  Claim C6, as amended: the enabled-tools rule excludes a tool exactly when
  \<open>EnabledTools\<close> is set (a non-nil slice) and does not contain the tool's name. A tool
  is applicable if and only if it is applicable under the same configuration with
  \<open>EnabledTools\<close> unset (the three other rules) and, when \<open>EnabledTools\<close> is set, its name
  is a member; an unset collection imposes no restriction and a set but empty one
  excludes every tool.
\<close>

theorem enabledTools_rule:
  "isToolApplicable c t =
     (isToolApplicable (c\<lparr>EnabledTools := None\<rparr>) t \<and>
      (case EnabledTools c of None \<Rightarrow> True | Some names \<Rightarrow> Name (Tool t) \<in> set names))"
  by (auto simp: isToolApplicable_def slices_Contains_def split: option.splits)

section \<open>Diffing and applying\<close>

text \<open>
  Claim C7 says that every pass that reaches the Diffing phase installs every tool of the
  applicable list. The pass below reaches it with three applicable tools; the conversion
  of the second fails, so only the first is installed and \<open>later_tool\<close> never reaches the
  protocol server.
\<close>

theorem reinstall_all_counterexample:
  "NewProvider example_E_broken (configuration example_s) = Inr example_p \<and>
   GetTargets example_p = Inr [''prod''] \<and>
   fst (buildApplicableTools example_E_broken (configuration example_s) example_p [''prod''])
     = [example_tool ''new_tool'' None, example_tool ''broken'' None,
        example_tool ''later_tool'' None] \<and>
   calls (snd (reloadKubernetesClusterProvider example_E_broken example_s))
     = [Call_Close example_p, Call_RemoveTools [''old_tool''],
        Call_AddTool (example_sdk_tool ''new_tool'' None)] \<and>
   server_tools (snd (reloadKubernetesClusterProvider example_E_broken example_s)) ''later_tool''
     = None"
  by (simp add: scenario_defs example_defs pass_defs)

text \<open>
  Claim C7, as amended: in every pass that reaches the Diffing phase, one \<open>RemoveTools\<close>
  call is issued right after the close of the old provider, and the set of names it
  removes is the previously enabled names minus the newly computed names. When no
  conversion fails, the pass then installs every tool of the applicable list by an
  \<open>AddTool\<close> call, in list order and whether or not its name was advertised before, and
  re-arms the watch. When a conversion fails, the \<open>AddTool\<close> calls are exactly those of
  the tools before the first failing one.
\<close>

theorem diffing_removes_stale_and_reinstalls:
  assumes "NewProvider E (configuration s) = Inr p" and "GetTargets p = Inr targets"
  shows "\<exists>removed added.
           calls (snd (reloadKubernetesClusterProvider E s))
             = calls s @ closeCalls s @ Call_RemoveTools removed # added \<and>
           set removed = set (enabledTools s)
             - set (map (\<lambda>t. Name (Tool t))
                     (fst (buildApplicableTools E (configuration s) p targets))) \<and>
           (\<forall>gs. map (ServerToolToGoSdkTool E)
                   (fst (buildApplicableTools E (configuration s) p targets)) = map Inr gs
              \<longrightarrow> fst (reloadKubernetesClusterProvider E s) = None \<and>
                  added = map Call_AddTool gs @ [Call_WatchTargets p]) \<and>
           (\<forall>pre t post gs e.
              fst (buildApplicableTools E (configuration s) p targets) = pre @ t # post \<and>
              map (ServerToolToGoSdkTool E) pre = map Inr gs \<and>
              ServerToolToGoSdkTool E t = Inl e
              \<longrightarrow> added = map Call_AddTool gs)"
proof -
  let ?app = "fst (buildApplicableTools E (configuration s) p targets)"
  have rm: "set (staleNames E s p targets)
              = set (enabledTools s) - set (map (\<lambda>t. Name (Tool t)) ?app)"
    by (simp add: staleNames_set snd_buildApplicableTools)
  have inj: "\<And>xs ys :: 'c mcp_Tool list. (map Inr xs :: (error + 'c mcp_Tool) list) = map Inr ys
               \<Longrightarrow> xs = ys"
    by (simp add: inj_map_eq_map)
  from convert_cases [of "ServerToolToGoSdkTool E" ?app] show ?thesis
  proof
    assume "\<exists>gs. map (ServerToolToGoSdkTool E) ?app = map Inr gs"
    then obtain gs where cv: "map (ServerToolToGoSdkTool E) ?app = map Inr gs" ..
    have no_fail: "\<And>pre t post e. ?app = pre @ t # post \<Longrightarrow>
                      ServerToolToGoSdkTool E t = Inl e \<Longrightarrow> False"
    proof -
      fix pre t post e
      assume a: "?app = pre @ t # post" and f: "ServerToolToGoSdkTool E t = Inl e"
      from a have "t \<in> set ?app" by simp
      then have "ServerToolToGoSdkTool E t \<in> set (map (ServerToolToGoSdkTool E) ?app)"
        by simp
      with cv f show False by auto
    qed
    show ?thesis
      apply (rule exI [of _ "staleNames E s p targets"])
      apply (rule exI [of _ "map Call_AddTool gs @ [Call_WatchTargets p]"])
      apply (simp add: reload_converted [OF assms cv] rm)
      using cv inj no_fail apply (auto simp del: map_eq_conv)
      done
  next
    assume "\<exists>pre t post gs e. ?app = pre @ t # post \<and>
              map (ServerToolToGoSdkTool E) pre = map Inr gs \<and> ServerToolToGoSdkTool E t = Inl e"
    then obtain pre t post gs e where ap: "?app = pre @ t # post"
      and cv: "map (ServerToolToGoSdkTool E) pre = map Inr gs"
      and fl: "ServerToolToGoSdkTool E t = Inl e" by blast
    have all_pre: "\<forall>u \<in> set pre. \<exists>g. ServerToolToGoSdkTool E u = Inr g"
    proof
      fix u assume "u \<in> set pre"
      then have "ServerToolToGoSdkTool E u \<in> set (map Inr gs)"
        using cv by (metis image_eqI list.set_map)
      then show "\<exists>g. ServerToolToGoSdkTool E u = Inr g" by auto
    qed
    have no_ok: "\<And>hs. map (ServerToolToGoSdkTool E) ?app = map Inr hs \<Longrightarrow> False"
    proof -
      fix hs assume "map (ServerToolToGoSdkTool E) ?app = map Inr hs"
      moreover have "t \<in> set ?app" using ap by simp
      ultimately have "ServerToolToGoSdkTool E t \<in> set (map Inr hs)"
        by (metis image_eqI list.set_map)
      with fl show False by auto
    qed
    have uniq: "\<And>pre' t' post' gs' e'. ?app = pre' @ t' # post' \<Longrightarrow>
                  map (ServerToolToGoSdkTool E) pre' = map Inr gs' \<Longrightarrow>
                  ServerToolToGoSdkTool E t' = Inl e' \<Longrightarrow> gs' = gs"
    proof -
      fix pre' t' post' gs' e'
      assume a: "?app = pre' @ t' # post'"
        and c: "map (ServerToolToGoSdkTool E) pre' = map Inr gs'"
        and f: "ServerToolToGoSdkTool E t' = Inl e'"
      have all_pre': "\<forall>u \<in> set pre'. \<exists>g. ServerToolToGoSdkTool E u = Inr g"
      proof
        fix u assume "u \<in> set pre'"
        then have "ServerToolToGoSdkTool E u \<in> set (map Inr gs')"
          using c by (metis image_eqI list.set_map)
        then show "\<exists>g. ServerToolToGoSdkTool E u = Inr g" by auto
      qed
      from a ap have eq: "pre @ t # post = pre' @ t' # post'" by simp
      have "pre = pre'"
      proof (rule ccontr)
        assume ne: "pre \<noteq> pre'"
        from eq ne have "t \<in> set pre' \<or> t' \<in> set pre"
          by (auto simp: append_eq_append_conv2 Cons_eq_append_conv append_eq_Cons_conv)
        with all_pre all_pre' fl f show False by auto
      qed
      with c cv have "map Inr gs' = (map Inr gs :: (error + 'c mcp_Tool) list)" by simp
      then show "gs' = gs" by (rule inj)
    qed
    show ?thesis
      apply (rule exI [of _ "staleNames E s p targets"])
      apply (rule exI [of _ "map Call_AddTool gs"])
      apply (simp add: reload_conversion_fails [OF assms ap cv fl] rm)
      using no_ok uniq apply (auto simp del: map_eq_conv)
      done
  qed
qed

text \<open>The amended claim C7 at a completed pass that replaces \<open>old_tool\<close> by three tools.\<close>

theorem diffing_removes_stale_and_reinstalls_witness:
  "NewProvider example_E_ok (configuration example_s) = Inr example_p \<and>
   GetTargets example_p = Inr [''prod''] \<and>
   map (ServerToolToGoSdkTool example_E_ok)
     (fst (buildApplicableTools example_E_ok (configuration example_s) example_p [''prod'']))
     = map Inr [example_sdk_tool ''pods_list'' (Some True),
                example_sdk_tool ''pods_delete'' (Some False),
                example_sdk_tool ''helm_install'' None] \<and>
   (\<exists>removed added.
      calls (snd (reloadKubernetesClusterProvider example_E_ok example_s))
        = calls example_s @ closeCalls example_s @ Call_RemoveTools removed # added \<and>
      set removed = {''old_tool''} \<and>
      added = map Call_AddTool [example_sdk_tool ''pods_list'' (Some True),
                example_sdk_tool ''pods_delete'' (Some False),
                example_sdk_tool ''helm_install'' None] @ [Call_WatchTargets example_p])"
proof -
  have h1: "NewProvider example_E_ok (configuration example_s) = Inr example_p"
    by (simp add: scenario_defs example_defs)
  have h2: "GetTargets example_p = Inr [''prod'']"
    by (simp add: scenario_defs example_defs)
  have ap: "fst (buildApplicableTools example_E_ok (configuration example_s) example_p [''prod''])
              = [example_tool ''pods_list'' (Some True), example_tool ''pods_delete'' (Some False),
                 example_tool ''helm_install'' None]"
    by (simp add: scenario_defs example_defs pass_defs)
  have h3: "map (ServerToolToGoSdkTool example_E_ok)
     (fst (buildApplicableTools example_E_ok (configuration example_s) example_p [''prod'']))
     = map Inr [example_sdk_tool ''pods_list'' (Some True),
                example_sdk_tool ''pods_delete'' (Some False),
                example_sdk_tool ''helm_install'' None]"
    by (simp add: ap) (simp add: scenario_defs example_defs)
  have df: "set (enabledTools example_s)
              - set (map (\<lambda>t. Name (Tool t))
                  (fst (buildApplicableTools example_E_ok (configuration example_s)
                     example_p [''prod''])))
            = {''old_tool''}"
    by (simp add: ap) (simp add: scenario_defs example_defs)
  from diffing_removes_stale_and_reinstalls [OF h1 h2] obtain removed added where
    c: "calls (snd (reloadKubernetesClusterProvider example_E_ok example_s))
          = calls example_s @ closeCalls example_s @ Call_RemoveTools removed # added"
    and r: "set removed = set (enabledTools example_s)
              - set (map (\<lambda>t. Name (Tool t))
                  (fst (buildApplicableTools example_E_ok (configuration example_s)
                     example_p [''prod''])))"
    and a: "\<forall>gs. map (ServerToolToGoSdkTool example_E_ok)
                   (fst (buildApplicableTools example_E_ok (configuration example_s)
                      example_p [''prod''])) = map Inr gs
              \<longrightarrow> fst (reloadKubernetesClusterProvider example_E_ok example_s) = None \<and>
                  added = map Call_AddTool gs @ [Call_WatchTargets example_p]"
    by blast
  from a h3 have "added = map Call_AddTool [example_sdk_tool ''pods_list'' (Some True),
                example_sdk_tool ''pods_delete'' (Some False),
                example_sdk_tool ''helm_install'' None] @ [Call_WatchTargets example_p]"
    by blast
  with c r df h1 h2 h3 show ?thesis by blast
qed

section \<open>Removals before additions\<close>

text \<open>
  Claim C8: among the calls issued by one pass (the positions from \<open>length (calls s)\<close>
  on), every \<open>RemoveTools\<close> call comes before every \<open>AddTool\<close> call.
\<close>

theorem removals_precede_additions:
  assumes "length (calls s) \<le> i" and "i < length (calls (snd (reloadKubernetesClusterProvider E s)))"
    and "length (calls s) \<le> j" and "j < length (calls (snd (reloadKubernetesClusterProvider E s)))"
    and "calls (snd (reloadKubernetesClusterProvider E s)) ! i = Call_RemoveTools names"
    and "calls (snd (reloadKubernetesClusterProvider E s)) ! j = Call_AddTool g"
  shows "i < j"
proof -
  from reload_calls_split [of E s] obtain before after where
    sp: "calls (snd (reloadKubernetesClusterProvider E s)) = calls s @ before @ after"
    and nb: "\<forall>g. Call_AddTool g \<notin> set before"
    and na: "\<forall>names. Call_RemoveTools names \<notin> set after" by blast
  let ?n = "length (calls s)"
  have i_before: "i - ?n < length before"
  proof (rule ccontr)
    assume "\<not> i - ?n < length before"
    then have ge: "length before \<le> i - ?n" by simp
    from assms(1,2) sp have lt: "i - ?n - length before < length after" using ge by simp
    from assms(1) ge sp have "calls (snd (reloadKubernetesClusterProvider E s)) ! i
        = after ! (i - ?n - length before)"
      by (simp add: nth_append)
    with lt have "calls (snd (reloadKubernetesClusterProvider E s)) ! i \<in> set after"
      by simp
    with assms(5) na show False by simp
  qed
  have j_after: "length before \<le> j - ?n"
  proof (rule ccontr)
    assume "\<not> length before \<le> j - ?n"
    then have lt: "j - ?n < length before" by simp
    from assms(3) lt sp have "calls (snd (reloadKubernetesClusterProvider E s)) ! j
        = before ! (j - ?n)"
      by (simp add: nth_append)
    with lt have "calls (snd (reloadKubernetesClusterProvider E s)) ! j \<in> set before"
      by simp
    with assms(6) nb show False by simp
  qed
  from i_before j_after assms(1,3) show ?thesis by linarith
qed

text \<open>Claim C8 at a completed pass: the removal is call 1, the first addition call 2.\<close>

theorem removals_precede_additions_witness:
  "length (calls example_s) \<le> 1 \<and>
   1 < length (calls (snd (reloadKubernetesClusterProvider example_E_ok example_s))) \<and>
   length (calls example_s) \<le> 2 \<and>
   2 < length (calls (snd (reloadKubernetesClusterProvider example_E_ok example_s))) \<and>
   calls (snd (reloadKubernetesClusterProvider example_E_ok example_s)) ! 1
     = Call_RemoveTools [''old_tool''] \<and>
   calls (snd (reloadKubernetesClusterProvider example_E_ok example_s)) ! 2
     = Call_AddTool (example_sdk_tool ''pods_list'' (Some True)) \<and>
   (1 :: nat) < 2"
proof -
  have h1: "length (calls example_s) \<le> 1" and h3: "length (calls example_s) \<le> 2"
    by (simp_all add: example_s_def example_server_def)
  have h2: "1 < length (calls (snd (reloadKubernetesClusterProvider example_E_ok example_s)))"
    and h4: "2 < length (calls (snd (reloadKubernetesClusterProvider example_E_ok example_s)))"
    and h5: "calls (snd (reloadKubernetesClusterProvider example_E_ok example_s)) ! 1
               = Call_RemoveTools [''old_tool'']"
    and h6: "calls (snd (reloadKubernetesClusterProvider example_E_ok example_s)) ! 2
               = Call_AddTool (example_sdk_tool ''pods_list'' (Some True))"
    by (simp_all add: example_ok_pass)
  from removals_precede_additions [OF h1 h2 h3 h4 h5 h6] h1 h2 h3 h4 h5 h6
  show ?thesis by simp
qed

section \<open>Idempotence\<close>

text \<open>
  Claim C9: a second pass with the same collaborators (the same configuration, catalog,
  provider and resolved targets) leaves \<open>enabledTools\<close> and the tools of the protocol
  server as the first pass left them, and every \<open>RemoveTools\<close> call it issues removes no
  name. This holds for first passes that abort as well.
\<close>

theorem second_pass_idempotent:
  "enabledTools (snd (reloadKubernetesClusterProvider E (snd (reloadKubernetesClusterProvider E s))))
     = enabledTools (snd (reloadKubernetesClusterProvider E s)) \<and>
   server_tools (snd (reloadKubernetesClusterProvider E (snd (reloadKubernetesClusterProvider E s))))
     = server_tools (snd (reloadKubernetesClusterProvider E s)) \<and>
   (\<forall>names. Call_RemoveTools names
        \<in> set (drop (length (calls (snd (reloadKubernetesClusterProvider E s))))
                 (calls (snd (reloadKubernetesClusterProvider E
                    (snd (reloadKubernetesClusterProvider E s))))))
      \<longrightarrow> names = [])"
proof (cases "NewProvider E (configuration s)")
  case (Inl e)
  then show ?thesis by (simp add: reload_NewProvider_fails)
next
  case (Inr p)
  note np = this
  show ?thesis
  proof (cases "GetTargets p")
    case (Inl e)
    define s1 where "s1 = snd (reloadKubernetesClusterProvider E s)"
    have s1: "snd (reloadKubernetesClusterProvider E s) = s1"
      unfolding s1_def by simp
    have c1: "configuration s1 = configuration s" and e1: "enabledTools s1 = enabledTools s"
      and t1: "server_tools s1 = server_tools s" and p1: "cur_p s1 = Some p"
      unfolding s1_def by (simp_all add: reload_GetTargets_fails [OF np Inl])
    have np1: "NewProvider E (configuration s1) = Inr p" using np c1 by simp
    show ?thesis
      by (simp add: s1 reload_GetTargets_fails [OF np1 Inl] closeCalls_def p1 e1 t1)
  next
    case (Inr targets)
    note gt = this
    let ?app = "fst (buildApplicableTools E (configuration s) p targets)"
    let ?en = "snd (buildApplicableTools E (configuration s) p targets)"
    from convert_cases [of "ServerToolToGoSdkTool E" ?app] show ?thesis
    proof
      assume "\<exists>gs. map (ServerToolToGoSdkTool E) ?app = map Inr gs"
      then obtain gs where cv: "map (ServerToolToGoSdkTool E) ?app = map Inr gs" ..
      define s1 where "s1 = snd (reloadKubernetesClusterProvider E s)"
      have s1: "reloadKubernetesClusterProvider E s = (None, s1)"
        unfolding s1_def by (simp add: reload_converted [OF np gt cv])
      have c1: "configuration s1 = configuration s" and e1: "enabledTools s1 = ?en"
        and t1: "server_tools s1 = foldl (\<lambda>m g. m(mcp_Name g \<mapsto> g))
            (\<lambda>n. if n \<in> set (staleNames E s p targets) then None else server_tools s n) gs"
        unfolding s1_def by (simp_all add: reload_converted [OF np gt cv])
      have np1: "NewProvider E (configuration s1) = Inr p" using np c1 by simp
      have cv1: "map (ServerToolToGoSdkTool E)
                   (fst (buildApplicableTools E (configuration s1) p targets)) = map Inr gs"
        using cv c1 by simp
      have st: "staleNames E s1 p targets = []"
        by (rule staleNames_again [OF e1 c1])
      show ?thesis
        by (auto simp add: s1 reload_converted [OF np1 gt cv1] st c1 e1 t1 foldl_upd_twice
            closeCalls_not_remove)
    next
      assume "\<exists>pre t post gs e. ?app = pre @ t # post \<and>
                map (ServerToolToGoSdkTool E) pre = map Inr gs \<and> ServerToolToGoSdkTool E t = Inl e"
      then obtain pre t post gs e where ap: "?app = pre @ t # post"
        and cv: "map (ServerToolToGoSdkTool E) pre = map Inr gs"
        and fl: "ServerToolToGoSdkTool E t = Inl e" by blast
      define s1 where "s1 = snd (reloadKubernetesClusterProvider E s)"
      have s1: "snd (reloadKubernetesClusterProvider E s) = s1"
        unfolding s1_def by simp
      have c1: "configuration s1 = configuration s" and e1: "enabledTools s1 = ?en"
        and t1: "server_tools s1 = foldl (\<lambda>m g. m(mcp_Name g \<mapsto> g))
            (\<lambda>n. if n \<in> set (staleNames E s p targets) then None else server_tools s n) gs"
        unfolding s1_def by (simp_all add: reload_conversion_fails [OF np gt ap cv fl])
      have np1: "NewProvider E (configuration s1) = Inr p" using np c1 by simp
      have ap1: "fst (buildApplicableTools E (configuration s1) p targets) = pre @ t # post"
        using ap c1 by simp
      have st: "staleNames E s1 p targets = []"
        by (rule staleNames_again [OF e1 c1])
      show ?thesis
        by (auto simp add: s1 reload_conversion_fails [OF np1 gt ap1 cv fl] st c1 e1 t1
            foldl_upd_twice closeCalls_not_remove)
    qed
  qed
qed

text \<open>Claim C9 at two completed passes: the second one calls \<open>RemoveTools\<close> with no name.\<close>

theorem second_pass_idempotent_witness:
  "Call_RemoveTools []
     \<in> set (drop (length (calls (snd (reloadKubernetesClusterProvider example_E_ok example_s))))
              (calls (snd (reloadKubernetesClusterProvider example_E_ok
                 (snd (reloadKubernetesClusterProvider example_E_ok example_s)))))) \<and>
   enabledTools (snd (reloadKubernetesClusterProvider example_E_ok
       (snd (reloadKubernetesClusterProvider example_E_ok example_s))))
     = [''pods_list'', ''pods_delete'', ''helm_install''] \<and>
   server_tools (snd (reloadKubernetesClusterProvider example_E_ok
       (snd (reloadKubernetesClusterProvider example_E_ok example_s))))
     = server_tools (snd (reloadKubernetesClusterProvider example_E_ok example_s))"
proof -
  have e1: "enabledTools (snd (reloadKubernetesClusterProvider example_E_ok example_s))
              = [''pods_list'', ''pods_delete'', ''helm_install'']"
    by (simp add: example_ok_pass)
  have c2: "Call_RemoveTools []
     \<in> set (drop (length (calls (snd (reloadKubernetesClusterProvider example_E_ok example_s))))
              (calls (snd (reloadKubernetesClusterProvider example_E_ok
                 (snd (reloadKubernetesClusterProvider example_E_ok example_s))))))"
    by (simp add: example_ok_pass)
      (simp add: scenario_defs example_defs pass_defs cong: if_cong)
  from second_pass_idempotent [of example_E_ok example_s] e1 c2 show ?thesis by simp
qed

section \<open>Target extraction for token validation\<close>

text \<open>
  Claim C10: \<open>extractTargetFromRequest\<close> returns an error exactly when reading the body
  fails. When the body is not valid JSON, or the target parameter is absent or not a
  string, it returns the empty string and no error. Whenever the extracted target is
  empty, which includes the read failure, \<open>validateTokenWithKubernetes\<close> does not fail on
  that account: it returns what the token validation gives for the empty (default)
  target.
\<close>

theorem extractTarget_errors_only_on_read_failure:
  "(snd (fst (extractTargetFromRequest unmarshal r targetName)) \<noteq> None
      \<longleftrightarrow> (\<exists>e. Body r = Some (Inl e))) \<and>
   (\<forall>body e. Body r = Some (Inr body) \<and> unmarshal body = Inl e
      \<longrightarrow> fst (extractTargetFromRequest unmarshal r targetName) = ('''', None)) \<and>
   (\<forall>body arguments. Body r = Some (Inr body) \<and> unmarshal body = Inr arguments \<and>
        (\<forall>cluster. arguments targetName \<noteq> Some (JString cluster))
      \<longrightarrow> fst (extractTargetFromRequest unmarshal r targetName) = ('''', None)) \<and>
   (fst (fst (extractTargetFromRequest unmarshal r (V_GetTargetParameterName v))) = ''''
      \<longrightarrow> (\<exists>logged. validateTokenWithKubernetes unmarshal r (Some v) claims audience
             = Return (logged, ValidateWithKubernetesApi claims audience '''' (Some v)))) \<and>
   ((\<exists>e. Body r = Some (Inl e))
      \<longrightarrow> fst (fst (extractTargetFromRequest unmarshal r targetName)) = '''')"
proof (intro conjI allI impI)
  show "snd (fst (extractTargetFromRequest unmarshal r targetName)) \<noteq> None
      \<longleftrightarrow> (\<exists>e. Body r = Some (Inl e))"
    by (auto simp: extractTargetFromRequest_def Let_def
        split: option.splits sum.splits json.splits)
next
  fix body e
  assume "Body r = Some (Inr body) \<and> unmarshal body = Inl e"
  then show "fst (extractTargetFromRequest unmarshal r targetName) = ('''', None)"
    by (simp add: extractTargetFromRequest_def Let_def)
next
  fix body arguments
  assume "Body r = Some (Inr body) \<and> unmarshal body = Inr arguments \<and>
        (\<forall>cluster. arguments targetName \<noteq> Some (JString cluster))"
  then show "fst (extractTargetFromRequest unmarshal r targetName) = ('''', None)"
    by (auto simp: extractTargetFromRequest_def Let_def split: option.splits json.splits)
next
  assume "fst (fst (extractTargetFromRequest unmarshal r (V_GetTargetParameterName v))) = ''''"
  then show "\<exists>logged. validateTokenWithKubernetes unmarshal r (Some v) claims audience
             = Return (logged, ValidateWithKubernetesApi claims audience '''' (Some v))"
    by (cases "extractTargetFromRequest unmarshal r (V_GetTargetParameterName v)")
      (auto simp: validateTokenWithKubernetes_def Let_def split: prod.splits)
next
  assume "\<exists>e. Body r = Some (Inl e)"
  then show "fst (fst (extractTargetFromRequest unmarshal r targetName)) = ''''"
    by (auto simp: extractTargetFromRequest_def)
qed

text \<open>
  Claim C10 at a body that is not JSON, a body without arguments, a body whose target
  parameter is a number and a body that cannot be read.
\<close>

theorem extractTarget_errors_only_on_read_failure_witness:
  "(Body \<lparr>Body = Some (Inr ''not json'')\<rparr> = Some (Inr ''not json'') \<and>
    example_unmarshal ''not json'' = Inl ''invalid character'') \<and>
   fst (extractTargetFromRequest example_unmarshal \<lparr>Body = Some (Inr ''not json'')\<rparr> ''context'')
     = ('''', None) \<and>
   fst (fst (extractTargetFromRequest example_unmarshal \<lparr>Body = Some (Inr ''not json'')\<rparr>
     (V_GetTargetParameterName example_verifier))) = '''' \<and>
   (\<exists>logged. validateTokenWithKubernetes example_unmarshal \<lparr>Body = Some (Inr ''not json'')\<rparr>
      (Some example_verifier) \<lparr>Token = ''tok''\<rparr> ''aud''
        = Return (logged, ValidateWithKubernetesApi \<lparr>Token = ''tok''\<rparr> ''aud'' ''''
            (Some example_verifier))) \<and>
   (Body \<lparr>Body = Some (Inr ''{}'')\<rparr> = Some (Inr ''{}'') \<and>
    example_unmarshal ''{}'' = Inr Map.empty \<and>
    (\<forall>cluster. (Map.empty :: string \<rightharpoonup> unit json) ''context'' \<noteq> Some (JString cluster))) \<and>
   fst (extractTargetFromRequest example_unmarshal \<lparr>Body = Some (Inr ''{}'')\<rparr> ''context'')
     = ('''', None) \<and>
   (Body \<lparr>Body = Some (Inr ''{\"params\":{\"arguments\":{\"context\":7}}}'')\<rparr>
      = Some (Inr ''{\"params\":{\"arguments\":{\"context\":7}}}'') \<and>
    example_unmarshal ''{\"params\":{\"arguments\":{\"context\":7}}}''
      = Inr [''context'' \<mapsto> JNumber ()] \<and>
    (\<forall>cluster. [''context'' \<mapsto> JNumber ()] ''context'' \<noteq> Some (JString cluster))) \<and>
   fst (extractTargetFromRequest example_unmarshal
      \<lparr>Body = Some (Inr ''{\"params\":{\"arguments\":{\"context\":7}}}'')\<rparr> ''context'')
     = ('''', None) \<and>
   (\<exists>e. Body \<lparr>Body = Some (Inl ''unexpected EOF'')\<rparr> = Some (Inl e)) \<and>
   snd (fst (extractTargetFromRequest example_unmarshal
     \<lparr>Body = Some (Inl ''unexpected EOF'')\<rparr> ''context'')) \<noteq> None \<and>
   fst (fst (extractTargetFromRequest example_unmarshal
     \<lparr>Body = Some (Inl ''unexpected EOF'')\<rparr> ''context'')) = ''''"
proof -
  have a1: "Body \<lparr>Body = Some (Inr ''not json'')\<rparr> = Some (Inr ''not json'') \<and>
            example_unmarshal ''not json'' = Inl ''invalid character''"
    by (simp add: example_unmarshal_def)
  have a2: "Body \<lparr>Body = Some (Inr ''{}'')\<rparr> = Some (Inr ''{}'') \<and>
            example_unmarshal ''{}'' = Inr Map.empty \<and>
            (\<forall>cluster. (Map.empty :: string \<rightharpoonup> unit json) ''context'' \<noteq> Some (JString cluster))"
    by (simp add: example_unmarshal_def)
  have a4: "Body \<lparr>Body = Some (Inr ''{\"params\":{\"arguments\":{\"context\":7}}}'')\<rparr>
      = Some (Inr ''{\"params\":{\"arguments\":{\"context\":7}}}'') \<and>
    example_unmarshal ''{\"params\":{\"arguments\":{\"context\":7}}}''
      = Inr [''context'' \<mapsto> JNumber ()] \<and>
    (\<forall>cluster. [''context'' \<mapsto> JNumber ()] ''context'' \<noteq> Some (JString cluster))"
    by (simp add: example_unmarshal_def)
  have a3: "\<exists>e. Body \<lparr>Body = Some (Inl ''unexpected EOF'')\<rparr> = Some (Inl e)"
    by simp
  have v: "V_GetTargetParameterName example_verifier = ''context''"
    by (simp add: example_verifier_def)
  note t1 = extractTarget_errors_only_on_read_failure
    [of example_unmarshal "\<lparr>Body = Some (Inr ''not json'')\<rparr>" "''context''" example_verifier
      "\<lparr>Token = ''tok''\<rparr>" "''aud''"]
  note t2 = extractTarget_errors_only_on_read_failure
    [of example_unmarshal "\<lparr>Body = Some (Inr ''{}'')\<rparr>" "''context''" example_verifier
      "\<lparr>Token = ''tok''\<rparr>" "''aud''"]
  note t4 = extractTarget_errors_only_on_read_failure
    [of example_unmarshal
      "\<lparr>Body = Some (Inr ''{\"params\":{\"arguments\":{\"context\":7}}}'')\<rparr>"
      "''context''" example_verifier "\<lparr>Token = ''tok''\<rparr>" "''aud''"]
  note t3 = extractTarget_errors_only_on_read_failure
    [of example_unmarshal "\<lparr>Body = Some (Inl ''unexpected EOF'')\<rparr>" "''context''"
      example_verifier "\<lparr>Token = ''tok''\<rparr>" "''aud''"]
  have b1: "fst (extractTargetFromRequest example_unmarshal
      \<lparr>Body = Some (Inr ''not json'')\<rparr> ''context'') = ('''', None)"
    by (rule t1 [THEN conjunct2, THEN conjunct1, rule_format]) (rule a1)
  have b1': "fst (fst (extractTargetFromRequest example_unmarshal
      \<lparr>Body = Some (Inr ''not json'')\<rparr> (V_GetTargetParameterName example_verifier))) = ''''"
    by (simp only: v b1 fst_conv)
  have b1'': "\<exists>logged. validateTokenWithKubernetes example_unmarshal
      \<lparr>Body = Some (Inr ''not json'')\<rparr> (Some example_verifier) \<lparr>Token = ''tok''\<rparr> ''aud''
        = Return (logged, ValidateWithKubernetesApi \<lparr>Token = ''tok''\<rparr> ''aud'' ''''
            (Some example_verifier))"
    by (rule t1 [THEN conjunct2, THEN conjunct2, THEN conjunct2, THEN conjunct1, rule_format])
      (rule b1')
  have b2: "fst (extractTargetFromRequest example_unmarshal
      \<lparr>Body = Some (Inr ''{}'')\<rparr> ''context'') = ('''', None)"
    by (rule t2 [THEN conjunct2, THEN conjunct2, THEN conjunct1, rule_format]) (rule a2)
  have b4: "fst (extractTargetFromRequest example_unmarshal
      \<lparr>Body = Some (Inr ''{\"params\":{\"arguments\":{\"context\":7}}}'')\<rparr> ''context'')
     = ('''', None)"
    by (rule t4 [THEN conjunct2, THEN conjunct2, THEN conjunct1, rule_format]) (rule a4)
  have b3: "snd (fst (extractTargetFromRequest example_unmarshal
     \<lparr>Body = Some (Inl ''unexpected EOF'')\<rparr> ''context'')) \<noteq> None"
    by (rule t3 [THEN conjunct1, THEN iffD2]) (rule a3)
  have b3': "fst (fst (extractTargetFromRequest example_unmarshal
     \<lparr>Body = Some (Inl ''unexpected EOF'')\<rparr> ''context'')) = ''''"
    by (rule t3 [THEN conjunct2, THEN conjunct2, THEN conjunct2, THEN conjunct2, rule_format])
      (rule a3)
  show ?thesis
    apply (rule conjI, rule a1)
    apply (rule conjI, rule b1)
    apply (rule conjI, rule b1')
    apply (rule conjI, rule b1'')
    apply (rule conjI, rule a2)
    apply (rule conjI, rule b2)
    apply (rule conjI, rule a4)
    apply (rule conjI, rule b4)
    apply (rule conjI, rule a3)
    apply (rule conjI, rule b3)
    apply (rule b3')
    done
qed

end
